theory Spec2Isabelle
  imports Complex_Main "HOL-Library.Sublist"
begin

section \<open>Python values used by the service\<close>

text \<open>
  A Python \<^verbatim>\<open>str\<close> is a sequence of Unicode code points, so it is modelled as a list of
  natural numbers.  \<open>ustr\<close> embeds an ASCII literal; the accented letters and pictographs
  of the French messages are spliced in by their code points.
\<close>

type_synonym pystr = "nat list"

definition ustr :: "string \<Rightarrow> pystr" where
  "ustr s = map of_char s"

text \<open>\<^verbatim>\<open>str(n)\<close> for a non-negative and for an arbitrary integer.\<close>

fun str_nat :: "nat \<Rightarrow> pystr" where
  "str_nat n = (if n < 10 then [48 + n] else str_nat (n div 10) @ [48 + n mod 10])"

definition str_int :: "int \<Rightarrow> pystr" where
  "str_int i = (if i < 0 then 45 # str_nat (nat (- i)) else str_nat (nat i))"

text \<open>
  The slice \<^verbatim>\<open>xs[i:]\<close>: a negative start counts from the end and is clipped at the
  front of the list, a non-negative one is clipped at its end.  In particular
  \<^verbatim>\<open>xs[-0:]\<close> is \<^verbatim>\<open>xs[0:]\<close>, the whole list.
\<close>

definition slice_from :: "int \<Rightarrow> 'a list \<Rightarrow> 'a list" where
  "slice_from i xs =
     (if i < 0 then drop (nat (int (length xs) + i)) xs else drop (nat i) xs)"

text \<open>\<^verbatim>\<open>sep.join(parts)\<close>.\<close>

fun join :: "pystr \<Rightarrow> pystr list \<Rightarrow> pystr" where
  "join sep [] = []"
| "join sep [x] = x"
| "join sep (x # y # ys) = x @ sep @ join sep (y # ys)"



text \<open>
  \<^verbatim>\<open>str.lower()\<close>: a string of ASCII characters only is lower-cased letter by letter;
  any other string is lower-cased by the Unicode database of the runtime, which is a
  parameter here.
\<close>

definition ascii_lower :: "pystr \<Rightarrow> pystr" where
  "ascii_lower s = map (\<lambda>c. if 65 \<le> c \<and> c \<le> 90 then c + 32 else c) s"

definition lower :: "(pystr \<Rightarrow> pystr) \<Rightarrow> pystr \<Rightarrow> pystr" where
  "lower unicode_lower s = (if list_all (\<lambda>c. c < 128) s then ascii_lower s else unicode_lower s)"

text \<open>
  \<^verbatim>\<open>repr(s)\<close> of a string: double quotes when the string holds a single quote and no
  double quote, single quotes otherwise.  The quote and the backslash are escaped, tab,
  line feed and carriage return are written \<^verbatim>\<open>\t\<close>, \<^verbatim>\<open>\n\<close> and \<^verbatim>\<open>\r\<close>, the other ASCII
  control characters as \<^verbatim>\<open>\xNN\<close>, and a code point above 126 that the Unicode database
  does not count as printable as \<^verbatim>\<open>\xNN\<close>, \<^verbatim>\<open>\uNNNN\<close> or \<^verbatim>\<open>\UNNNNNNNN\<close> by its size.
  Which code points above 126 are printable is a parameter.
\<close>

definition hex_digit :: "nat \<Rightarrow> nat" where
  "hex_digit d = (if d < 10 then 48 + d else 87 + d)"

fun hex_fixed :: "nat \<Rightarrow> nat \<Rightarrow> pystr" where
  "hex_fixed 0 n = []"
| "hex_fixed (Suc w) n = hex_fixed w (n div 16) @ [hex_digit (n mod 16)]"

definition repr_char :: "(nat \<Rightarrow> bool) \<Rightarrow> nat \<Rightarrow> nat \<Rightarrow> pystr" where
  "repr_char printable q c =
     (if c = 92 then [92, 92]
      else if c = q then [92, q]
      else if c = 9 then [92, 116]
      else if c = 10 then [92, 110]
      else if c = 13 then [92, 114]
      else if c < 32 \<or> c = 127 then [92, 120] @ hex_fixed 2 c
      else if c < 127 then [c]
      else if printable c then [c]
      else if c \<le> 255 then [92, 120] @ hex_fixed 2 c
      else if c \<le> 65535 then [92, 117] @ hex_fixed 4 c
      else [92, 85] @ hex_fixed 8 c)"

definition py_repr :: "(nat \<Rightarrow> bool) \<Rightarrow> pystr \<Rightarrow> pystr" where
  "py_repr printable s =
     (let q = (if 39 \<in> set s \<and> 34 \<notin> set s then 34 else 39)
      in [q] @ concat (map (repr_char printable q) s) @ [q])"

subsection \<open>Paths\<close>

text \<open>
  Paths are POSIX paths, held as their string.  \<open>path_name\<close> is \<^verbatim>\<open>Path(p).name\<close>: the
  last component, after empty and \<^verbatim>\<open>.\<close> components are dropped.  \<open>path_suffix\<close> is
  \<^verbatim>\<open>Path(p).suffix\<close>: with \<^verbatim>\<open>i = name.rfind('.')\<close>, it is \<^verbatim>\<open>name[i:]\<close> when
  \<^verbatim>\<open>0 < i < len(name) - 1\<close> and the empty string otherwise (the rule of Python up to
  3.13; later versions give a name that ends in a dot the suffix \<^verbatim>\<open>.\<close>, which is no
  allowed extension either).  \<open>basename\<close> is \<^verbatim>\<open>os.path.basename\<close>: what follows the
  last slash.
\<close>

fun split_on :: "nat \<Rightarrow> pystr \<Rightarrow> pystr list" where
  "split_on sep [] = [[]]"
| "split_on sep (c # cs) =
     (if c = sep then [] # split_on sep cs
      else (case split_on sep cs of [] \<Rightarrow> [[c]] | p # ps \<Rightarrow> (c # p) # ps))"

definition path_name :: "pystr \<Rightarrow> pystr" where
  "path_name p =
     (case filter (\<lambda>x. x \<noteq> [] \<and> x \<noteq> [46]) (split_on 47 p) of
        [] \<Rightarrow> []
      | x # xs \<Rightarrow> last (x # xs))"

definition path_suffix :: "pystr \<Rightarrow> pystr" where
  "path_suffix p =
     (let name = path_name p;
          tail = rev (takeWhile (\<lambda>c. c \<noteq> 46) (rev name));
          stem = take (length name - length tail - 1) name
      in if 46 \<in> set name \<and> stem \<noteq> [] \<and> tail \<noteq> [] then 46 # tail else [])"

definition basename :: "pystr \<Rightarrow> pystr" where
  "basename p = rev (takeWhile (\<lambda>c. c \<noteq> 47) (rev p))"

subsection \<open>Exceptions\<close>

text \<open>
  The exceptions the service distinguishes, each with the text \<^verbatim>\<open>str(exc)\<close> gives.
  \<open>Timeout\<close> and \<open>HTTPError\<close> are those of the HTTP client library; the second carries
  \<^verbatim>\<open>exc.response.status_code\<close>.  Both derive from \<^verbatim>\<open>OSError\<close> there.
  \<open>OtherException\<close> is any other subclass of \<^verbatim>\<open>Exception\<close>.
\<close>

datatype exn =
    Timeout pystr
  | HTTPError int pystr
  | ValueError pystr
  | OSError pystr
  | OtherException pystr

fun exn_str :: "exn \<Rightarrow> pystr" where
  "exn_str (Timeout m) = m"
| "exn_str (HTTPError c m) = m"
| "exn_str (ValueError m) = m"
| "exn_str (OSError m) = m"
| "exn_str (OtherException m) = m"

fun is_OSError :: "exn \<Rightarrow> bool" where
  "is_OSError (OSError m) = True"
| "is_OSError (Timeout m) = True"
| "is_OSError (HTTPError c m) = True"
| "is_OSError (ValueError m) = False"
| "is_OSError (OtherException m) = False"

section \<open>Configuration (app/core/config.py)\<close>

text \<open>
  The settings are read from the environment once, with defaults, so they are a
  parameter of the model.  \<open>ALLOWED_EXTENSIONS\<close> is a constant of the source.
\<close>

record config =
  RAG_TOP_K :: int
  RAG_MIN_SCORE :: real
  MAX_HISTORY_LENGTH :: int
  UPLOAD_DIR :: pystr
  EMBEDDING_MODEL :: pystr

definition default_config :: config where
  "default_config =
     \<lparr>RAG_TOP_K = 4, RAG_MIN_SCORE = 0.6, MAX_HISTORY_LENGTH = 6,
      UPLOAD_DIR = ustr ''uploads'', EMBEDDING_MODEL = ustr ''all-MiniLM-L6-v2''\<rparr>"

definition ALLOWED_EXTENSIONS :: "pystr set" where
  "ALLOWED_EXTENSIONS = {ustr ''.txt'', ustr ''.pdf''}"

section \<open>External collaborators\<close>

text \<open>
  A document chunk: its text and its metadata dictionary, of which only the entry
  \<^verbatim>\<open>source\<close> is read.
\<close>

record document =
  page_content :: pystr
  metadata :: "pystr \<rightharpoonup> pystr"

text \<open>
  The vector index is opaque.  The model holds what the service asks of it: the scored
  and the plain similarity search, each raising or returning, and what introspection of
  its document store yields: \<open>docstore\<close> is \<open>None\<close> when the attribute is missing,
  \<^verbatim>\<open>None\<close> or falsy, and \<open>dict_len\<close> is \<open>None\<close> when the store has no \<^verbatim>\<open>_dict\<close>, else
  the outcome of \<^verbatim>\<open>len(docstore._dict)\<close>.
\<close>

record docstore =
  dict_len :: "(exn + nat) option"

record vstore =
  similarity_search_with_score :: "pystr \<Rightarrow> int \<Rightarrow> exn + (document \<times> real) list"
  similarity_search :: "pystr \<Rightarrow> int \<Rightarrow> exn + document list"
  docstore :: "docstore option"

text \<open>
  The HTTP response of the completion endpoint, as the client reads it: its status
  code, reason phrase and URL, and what the expression
  \<^verbatim>\<open>response.json()["choices"][0]["message"]["content"]\<close> does, which raises or yields
  the text of the first completion's message.
\<close>

record response =
  response_status_code :: int
  reason :: pystr
  url :: pystr
  choices_0_message_content :: "exn + pystr"

text \<open>
  \<^verbatim>\<open>response.raise_for_status()\<close> of the HTTP client library raises \<open>HTTPError\<close> for a
  status from 400 to 499 (a client error) and from 500 to 599 (a server error), and
  returns for every other status.
\<close>

definition raise_for_status :: "response \<Rightarrow> exn option" where
  "raise_for_status r =
     (if 400 \<le> response_status_code r \<and> response_status_code r < 500
      then Some (HTTPError (response_status_code r)
                  (str_int (response_status_code r) @ ustr '' Client Error: '' @ reason r
                   @ ustr '' for url: '' @ url r))
      else if 500 \<le> response_status_code r \<and> response_status_code r < 600
      then Some (HTTPError (response_status_code r)
                  (str_int (response_status_code r) @ ustr '' Server Error: '' @ reason r
                   @ ustr '' for url: '' @ url r))
      else None)"

text \<open>The request \<^verbatim>\<open>requests.post(...)\<close> for a prompt raises or returns a response.\<close>

type_synonym groq_api = "pystr \<Rightarrow> exn + response"

text \<open>
  What ingestion and upload take from outside the repository: the two loaders, the
  splitter, the constructor of the embeddings for a model name (the embeddings object
  is held as that name), the index builder for chunks and embeddings, the write of the
  index to disk, and the two Unicode tables of the runtime that \<open>lower\<close> and \<open>py_repr\<close>
  consult.
\<close>

record ingest_env =
  TextLoader_load :: "pystr \<Rightarrow> exn + document list"
  PyPDFLoader_load :: "pystr \<Rightarrow> exn + document list"
  split_documents :: "document list \<Rightarrow> exn + document list"
  SentenceTransformerEmbeddings :: "pystr \<Rightarrow> exn option"
  FAISS_from_documents :: "document list \<Rightarrow> pystr \<Rightarrow> exn + vstore"
  save_local :: "vstore \<Rightarrow> exn option"
  unicode_lower :: "pystr \<Rightarrow> pystr"
  unicode_printable :: "nat \<Rightarrow> bool"

text \<open>The effects on the outside world, in the order they happen.\<close>

datatype event =
    ScoredSearch pystr int
  | PlainSearch pystr int
  | GroqPost pystr
  | SaveUpload pystr
  | IngestFile pystr bool

section \<open>The LLM client (app/services/chatbot.py)\<close>

text \<open>The body of the \<^verbatim>\<open>try\<close> block: post, check the status, read the text.\<close>

definition groq_request :: "groq_api \<Rightarrow> pystr \<Rightarrow> exn + pystr" where
  "groq_request post prompt =
     (case post prompt of
        Inl e \<Rightarrow> Inl e
      | Inr r \<Rightarrow>
          (case raise_for_status r of
             Some e \<Rightarrow> Inl e
           | None \<Rightarrow> choices_0_message_content r))"

text \<open>The three \<^verbatim>\<open>except\<close> clauses, in the source's order.\<close>

definition call_groq :: "groq_api \<Rightarrow> pystr \<Rightarrow> pystr" where
  "call_groq post prompt =
     (case groq_request post prompt of
        Inr text \<Rightarrow> text
      | Inl (Timeout m) \<Rightarrow>
          [9203] @ ustr '' La requ'' @ [234] @ ustr ''te a pris trop de temps. Veuillez r''
          @ [233] @ ustr ''essayer avec une question plus courte.''
      | Inl (HTTPError status_code m) \<Rightarrow>
          [9888, 65039] @ ustr '' Erreur API ('' @ str_int status_code
          @ ustr ''). Veuillez r'' @ [233] @ ustr ''essayer.''
      | Inl e \<Rightarrow>
          [10060] @ ustr '' Une erreur inattendue s'est produite. Veuillez r'' @ [233]
          @ ustr ''essayer.'')"

section \<open>The prompt builder\<close>

definition passage :: "nat \<Rightarrow> document \<Rightarrow> pystr" where
  "passage i doc =
     (let source =
        (case metadata doc (ustr ''source'') of
           None \<Rightarrow> []
         | Some s \<Rightarrow> if s = [] then [] else ustr '' [Source: '' @ basename s @ ustr '']'')
      in ustr ''--- Extrait '' @ str_nat i @ source @ ustr '' ---'' @ [10] @ page_content doc)"

definition context_block :: "document list \<Rightarrow> pystr" where
  "context_block context_docs =
     join [10, 10] (map (\<lambda>(i, doc). passage i doc) (enumerate 1 context_docs))"

definition history_lines :: "nat \<Rightarrow> pystr \<times> pystr \<Rightarrow> pystr" where
  "history_lines idx t =
     (case t of (q, a) \<Rightarrow>
        ustr ''Q'' @ str_nat idx @ ustr '': '' @ q @ [10]
        @ ustr ''A'' @ str_nat idx @ ustr '': '' @ a)"

definition history_block :: "(pystr \<times> pystr) list \<Rightarrow> pystr" where
  "history_block history =
     (if history = [] then []
      else ustr ''HISTORIQUE R'' @ [201] @ ustr ''CENT:'' @ [10]
           @ join [10, 10]
               (map (\<lambda>(idx, t). history_lines idx t) (enumerate 1 (slice_from (- 3) history)))
           @ [10, 10])"

definition INSTRUCTIONS :: pystr where
  "INSTRUCTIONS =
     ustr ''Tu es SkyBot, un assistant IA sp'' @ [233] @ ustr ''cialis'' @ [233]
     @ ustr '' dans l'analyse de documents.'' @ [10, 10]
     @ ustr ''INSTRUCTIONS:'' @ [10]
     @ ustr ''1. R'' @ [233] @ ustr ''ponds UNIQUEMENT en te basant sur le CONTEXTE fourni ci-dessous.''
     @ [10]
     @ ustr ''2. Si l'information est absente du contexte, r'' @ [233] @ ustr ''ponds : '' @ [34]
     @ ustr ''Je ne trouve pas cette information dans le document.'' @ [34] @ [10]
     @ ustr ''3. Sois pr'' @ [233]
     @ ustr ''cis, concis et factuel. Ne jamais inventer ou extrapoler.'' @ [10]
     @ ustr ''4. Cite tes sources quand c'est pertinent.'' @ [10]
     @ ustr ''5. Structure ta r'' @ [233] @ ustr ''ponse clairement.'' @ [10, 10]"

definition CONTEXT_HEADER :: pystr where
  "CONTEXT_HEADER = ustr ''CONTEXTE DOCUMENTAIRE:'' @ [10]"

definition QUESTION_HEADER :: pystr where
  "QUESTION_HEADER = [10, 10] @ ustr ''QUESTION: ''"

definition ANSWER_HEADER :: pystr where
  "ANSWER_HEADER =
     [10, 10] @ ustr ''R'' @ [201] @ ustr ''PONSE (bas'' @ [233]
     @ ustr ''e uniquement sur le contexte):''"

definition build_prompt :: "pystr \<Rightarrow> document list \<Rightarrow> (pystr \<times> pystr) list \<Rightarrow> pystr" where
  "build_prompt question context_docs history =
     INSTRUCTIONS @ history_block history @ CONTEXT_HEADER @ context_block context_docs
     @ QUESTION_HEADER @ question @ ANSWER_HEADER"

section \<open>Ingestion (app/services/ingest.py)\<close>

text \<open>Sequencing of calls that may raise: the first exception ends the block.\<close>

definition bind_exn :: "exn + 'a \<Rightarrow> ('a \<Rightarrow> exn + 'b) \<Rightarrow> exn + 'b" where
  "bind_exn r f = (case r of Inl e \<Rightarrow> Inl e | Inr v \<Rightarrow> f v)"

definition load_file :: "ingest_env \<Rightarrow> pystr \<Rightarrow> exn + document list" where
  "load_file env file_path =
     (let ext = lower (unicode_lower env) (path_suffix file_path)
      in if ext = ustr ''.txt'' then TextLoader_load env file_path
         else if ext = ustr ''.pdf'' then PyPDFLoader_load env file_path
         else Inl (ValueError (ustr ''Unsupported file extension: ''
                     @ py_repr (unicode_printable env) ext)))"

definition get_embeddings :: "config \<Rightarrow> ingest_env \<Rightarrow> exn + pystr" where
  "get_embeddings cfg env =
     (case SentenceTransformerEmbeddings env (EMBEDDING_MODEL cfg) of
        Some e \<Rightarrow> Inl e
      | None \<Rightarrow> Inr (EMBEDDING_MODEL cfg))"

definition ingest_file :: "config \<Rightarrow> ingest_env \<Rightarrow> pystr \<Rightarrow> bool \<Rightarrow> exn + vstore" where
  "ingest_file cfg env file_path save_to_disk =
     bind_exn (load_file env file_path) (\<lambda>docs.
       if docs = []
       then Inl (ValueError (ustr ''No content could be extracted from '' @ file_path))
       else
         bind_exn (split_documents env docs) (\<lambda>chunks.
           bind_exn (get_embeddings cfg env) (\<lambda>embeddings.
             bind_exn (FAISS_from_documents env chunks embeddings) (\<lambda>vectorstore.
               if save_to_disk
               then (case save_local env vectorstore of
                       Some e \<Rightarrow> Inl e
                     | None \<Rightarrow> Inr vectorstore)
               else Inr vectorstore))))"

section \<open>The chatbot (class RAGChatbot)\<close>

record chatbot =
  vectorstore :: "vstore option"
  history :: "(pystr \<times> pystr) list"

definition is_ready :: "chatbot \<Rightarrow> bool" where
  "is_ready cb \<longleftrightarrow> vectorstore cb \<noteq> None"

text \<open>
  A method that may raise returns its outcome and the chatbot as the call leaves it.
  In \<open>rebuild_from_file\<close> the assignment to the field happens after \<open>ingest_file\<close> has
  returned, so an exception leaves the object as it was.
\<close>

definition rebuild_from_file ::
  "config \<Rightarrow> ingest_env \<Rightarrow> chatbot \<Rightarrow> pystr \<Rightarrow> bool \<Rightarrow> (exn + unit) \<times> chatbot" where
  "rebuild_from_file cfg env cb file_path save_to_disk =
     (case ingest_file cfg env file_path save_to_disk of
        Inl e \<Rightarrow> (Inl e, cb)
      | Inr vs \<Rightarrow> (Inr (), cb\<lparr>vectorstore := Some vs\<rparr>))"

definition NOT_READY_MESSAGE :: pystr where
  "NOT_READY_MESSAGE =
     [9888, 65039] @ ustr '' Aucun document n'a '' @ [233] @ ustr ''t'' @ [233] @ ustr '' import''
     @ [233] @ ustr ''. Veuillez importer un fichier via la zone d'upload.''"

definition NOTHING_FOUND_MESSAGE :: pystr where
  "NOTHING_FOUND_MESSAGE =
     [128269] @ ustr '' Je n'ai pas trouv'' @ [233]
     @ ustr '' d'informations pertinentes dans le document pour r'' @ [233] @ ustr ''pondre ''
     @ [224] @ ustr '' votre question.''"

text \<open>
  \<open>retrieve\<close>: the scored search and the filter are inside the \<^verbatim>\<open>try\<close> block, the plain
  search after it is not.
\<close>

definition retrieve ::
  "config \<Rightarrow> vstore \<Rightarrow> pystr \<Rightarrow> int \<Rightarrow> (exn + document list) \<times> event list" where
  "retrieve cfg vs question k =
     (let plain = (similarity_search vs question k,
                   [ScoredSearch question k, PlainSearch question k])
      in case similarity_search_with_score vs question k of
           Inl e \<Rightarrow> plain
         | Inr pairs \<Rightarrow>
             (let docs = map fst (filter (\<lambda>(doc, score). score \<ge> RAG_MIN_SCORE cfg) pairs)
              in if docs \<noteq> [] then (Inr docs, [ScoredSearch question k]) else plain))"

definition add_to_history :: "config \<Rightarrow> chatbot \<Rightarrow> pystr \<Rightarrow> pystr \<Rightarrow> chatbot" where
  "add_to_history cfg cb question answer =
     (let h = history cb @ [(question, answer)]
      in if int (length h) > MAX_HISTORY_LENGTH cfg
         then cb\<lparr>history := slice_from (- MAX_HISTORY_LENGTH cfg) h\<rparr>
         else cb\<lparr>history := h\<rparr>)"

definition ask ::
  "config \<Rightarrow> groq_api \<Rightarrow> chatbot \<Rightarrow> pystr \<Rightarrow> int \<Rightarrow> (exn + pystr) \<times> chatbot \<times> event list" where
  "ask cfg post cb question k =
     (case vectorstore cb of
        None \<Rightarrow> (Inr NOT_READY_MESSAGE, cb, [])
      | Some vs \<Rightarrow>
          (case retrieve cfg vs question k of
             (Inl e, tr) \<Rightarrow> (Inl e, cb, tr)
           | (Inr docs, tr) \<Rightarrow>
               if docs = [] then (Inr NOTHING_FOUND_MESSAGE, cb, tr)
               else
                 (let prompt = build_prompt question docs (history cb);
                      answer = call_groq post prompt
                  in (Inr answer, add_to_history cfg cb question answer,
                      tr @ [GroqPost prompt]))))"

definition clear_history :: "chatbot \<Rightarrow> chatbot" where
  "clear_history cb = cb\<lparr>history := []\<rparr>"

text \<open>JSON values, for the dictionaries the service returns.\<close>

datatype jval = JNull | JBool bool | JInt int | JStr pystr | JObj "(pystr \<times> jval) list"

definition info :: "chatbot \<Rightarrow> (pystr \<times> jval) list" where
  "info cb =
     (case vectorstore cb of
        None \<Rightarrow> [(ustr ''status'', JStr (ustr ''no_document''))]
      | Some vs \<Rightarrow>
          (let fragment_count =
             (case docstore vs of
                None \<Rightarrow> JNull
              | Some d \<Rightarrow>
                  (case dict_len d of
                     None \<Rightarrow> JNull
                   | Some (Inl e) \<Rightarrow> JNull
                   | Some (Inr n) \<Rightarrow> JInt (int n)))
           in [(ustr ''status'', JStr (ustr ''ready'')),
               (ustr ''fragment_count'', fragment_count),
               (ustr ''embedding_model'', JStr (ustr ''all-MiniLM-L6-v2''))]))"

section \<open>The HTTP routes (app/api/routes.py)\<close>




text \<open>A \<^verbatim>\<open>JSONResponse\<close> with the body \<^verbatim>\<open>{ok, message}\<close>.\<close>

record json_response =
  status_code :: int
  ok :: bool
  message :: pystr

definition upload_file ::
  "config \<Rightarrow> ingest_env \<Rightarrow> (pystr \<Rightarrow> exn option) \<Rightarrow> chatbot \<Rightarrow> pystr \<Rightarrow> bool
     \<Rightarrow> (exn + json_response) \<times> chatbot \<times> event list" where
  "upload_file cfg env save_upload cb file_filename save_index =
     (let filename = path_name file_filename;
          ext = lower (unicode_lower env) (path_suffix filename)
      in if ext \<notin> ALLOWED_EXTENSIONS
         then (Inr \<lparr>status_code = 400, ok = False,
                    message = ustr ''Extension non support'' @ [233] @ ustr ''e : '' @ ext
                      @ ustr ''. Formats accept'' @ [233] @ ustr ''s : .txt, .pdf''\<rparr>,
               cb, [])
         else
           (let saved_path = UPLOAD_DIR cfg @ [47] @ filename
            in case save_upload saved_path of
                 Some e \<Rightarrow>
                   if is_OSError e
                   then (Inr \<lparr>status_code = 500, ok = False,
                              message = ustr ''Impossible de sauvegarder le fichier.''\<rparr>,
                         cb, [SaveUpload saved_path])
                   else (Inl e, cb, [SaveUpload saved_path])
               | None \<Rightarrow>
                   (case rebuild_from_file cfg env cb saved_path save_index of
                      (Inr u, cb') \<Rightarrow>
                        (Inr \<lparr>status_code = 200, ok = True,
                              message = [9989] @ ustr '' Fichier '' @ [171, 32] @ filename
                                @ [32, 187] @ ustr '' index'' @ [233] @ ustr '' avec succ''
                                @ [232] @ ustr ''s.''\<rparr>,
                         cb', [SaveUpload saved_path, IngestFile saved_path save_index])
                    | (Inl e, cb') \<Rightarrow>
                        (Inr \<lparr>status_code = 500, ok = False,
                              message = ustr ''Erreur d'indexation : '' @ exn_str e\<rparr>,
                         cb', [SaveUpload saved_path, IngestFile saved_path save_index]))))"

definition route_status :: "chatbot \<Rightarrow> (pystr \<times> jval) list" where
  "route_status cb = [(ustr ''status'', JStr (ustr ''ok'')), (ustr ''chatbot'', JObj (info cb))]"

definition route_clear_history :: "chatbot \<Rightarrow> json_response \<times> chatbot" where
  "route_clear_history cb =
     (\<lparr>status_code = 200, ok = True, message = ustr ''Historique effac'' @ [233] @ ustr ''.''\<rparr>,
      clear_history cb)"

section \<open>Sequences of operations on one chatbot\<close>

text \<open>
  Each question carries the behaviour of the completion endpoint at that moment.  An
  exception leaves the process running, so the next operation starts from the chatbot
  as the failed one left it.
\<close>

datatype operation =
    Ask pystr int groq_api
  | ClearHistory
  | Rebuild ingest_env pystr bool

fun step :: "config \<Rightarrow> chatbot \<Rightarrow> operation \<Rightarrow> chatbot" where
  "step cfg cb (Ask question k post) = fst (snd (ask cfg post cb question k))"
| "step cfg cb ClearHistory = clear_history cb"
| "step cfg cb (Rebuild env file_path save_to_disk) =
     snd (rebuild_from_file cfg env cb file_path save_to_disk)"

definition run :: "config \<Rightarrow> chatbot \<Rightarrow> operation list \<Rightarrow> chatbot" where
  "run cfg cb ops = foldl (step cfg) cb ops"

section \<open>Sample collaborators\<close>

text \<open>
  Concrete documents, indexes, endpoints and loaders, on which the operations are
  evaluated below.
\<close>

definition sample_doc :: document where
  "sample_doc =
     \<lparr>page_content = ustr ''Paris is the capital of France.'',
      metadata = [ustr ''source'' \<mapsto> ustr ''uploads/doc.txt'']\<rparr>"

definition plain_doc :: document where
  "plain_doc = \<lparr>page_content = ustr ''Lyon'', metadata = Map.empty\<rparr>"

definition sample_index :: vstore where
  "sample_index =
     \<lparr>similarity_search_with_score = (\<lambda>q k. Inr [(plain_doc, 0.3), (sample_doc, 0.9)]),
      similarity_search = (\<lambda>q k. Inr [plain_doc, sample_doc]),
      docstore = Some \<lparr>dict_len = Some (Inr 2)\<rparr>\<rparr>"

definition low_score_index :: vstore where
  "low_score_index =
     \<lparr>similarity_search_with_score = (\<lambda>q k. Inr [(sample_doc, 0.2)]),
      similarity_search = (\<lambda>q k. Inr [sample_doc]),
      docstore = Some \<lparr>dict_len = None\<rparr>\<rparr>"


definition failing_index :: vstore where
  "failing_index =
     \<lparr>similarity_search_with_score = (\<lambda>q k. Inl (OtherException (ustr ''scored search failed''))),
      similarity_search = (\<lambda>q k. Inl (OtherException (ustr ''plain search failed''))),
      docstore = Some \<lparr>dict_len = Some (Inl (OtherException (ustr ''no length'')))\<rparr>\<rparr>"

definition GROQ_URL :: pystr where
  "GROQ_URL = ustr ''https://api.groq.com/openai/v1/chat/completions''"

definition sample_api :: groq_api where
  "sample_api =
     (\<lambda>prompt. Inr \<lparr>response_status_code = 200, reason = ustr ''OK'', url = GROQ_URL,
                     choices_0_message_content = Inr (ustr ''Paris'')\<rparr>)"

definition timeout_api :: groq_api where
  "timeout_api = (\<lambda>prompt. Inl (Timeout (ustr ''read timed out'')))"

definition unavailable_api :: groq_api where
  "unavailable_api =
     (\<lambda>prompt. Inr \<lparr>response_status_code = 503, reason = ustr ''Service Unavailable'',
                     url = GROQ_URL,
                     choices_0_message_content = Inl (OtherException (ustr ''no JSON''))\<rparr>)"

definition malformed_api :: groq_api where
  "malformed_api =
     (\<lambda>prompt. Inr \<lparr>response_status_code = 200, reason = ustr ''OK'', url = GROQ_URL,
                     choices_0_message_content = Inl (OtherException (ustr ''choices''))\<rparr>)"

definition not_modified_api :: groq_api where
  "not_modified_api =
     (\<lambda>prompt. Inr \<lparr>response_status_code = 304, reason = ustr ''Not Modified'', url = GROQ_URL,
                     choices_0_message_content = Inl (OtherException (ustr ''Expecting value''))\<rparr>)"

definition multiple_choices_api :: groq_api where
  "multiple_choices_api =
     (\<lambda>prompt. Inr \<lparr>response_status_code = 300, reason = ustr ''Multiple Choices'',
                     url = GROQ_URL,
                     choices_0_message_content = Inr (ustr ''Paris'')\<rparr>)"

definition sample_env :: ingest_env where
  "sample_env =
     \<lparr>TextLoader_load = (\<lambda>p. Inr [sample_doc]),
      PyPDFLoader_load = (\<lambda>p. Inr []),
      split_documents = (\<lambda>docs. Inr docs),
      SentenceTransformerEmbeddings = (\<lambda>model_name. None),
      FAISS_from_documents = (\<lambda>chunks embeddings. Inr sample_index),
      save_local = (\<lambda>vs. None),
      unicode_lower =
        map (\<lambda>c. if c = 201 then 233 else if 65 \<le> c \<and> c \<le> 90 then c + 32 else c),
      unicode_printable = (\<lambda>c. c \<noteq> 160)\<rparr>"

definition failing_env :: ingest_env where
  "failing_env =
     sample_env\<lparr>FAISS_from_documents :=
       (\<lambda>chunks embeddings. Inl (OtherException (ustr ''index'')))\<rparr>"

definition other_model_config :: config where
  "other_model_config = default_config\<lparr>EMBEDDING_MODEL := ustr ''paraphrase-MiniLM-L3-v2''\<rparr>"

definition other_model_env :: ingest_env where
  "other_model_env =
     sample_env\<lparr>SentenceTransformerEmbeddings :=
       (\<lambda>model_name. if model_name = ustr ''paraphrase-MiniLM-L3-v2'' then None
                      else Some (OtherException (ustr ''model not installed'')))\<rparr>"

definition no_history_config :: config where
  "no_history_config = default_config\<lparr>MAX_HISTORY_LENGTH := 0\<rparr>"

definition fresh_chatbot :: chatbot where
  "fresh_chatbot = \<lparr>vectorstore = None, history = []\<rparr>"

definition sample_chatbot :: chatbot where
  "sample_chatbot = \<lparr>vectorstore = Some sample_index, history = []\<rparr>"


definition failing_chatbot :: chatbot where
  "failing_chatbot = \<lparr>vectorstore = Some failing_index, history = []\<rparr>"

definition filtered_failing_index :: vstore where
  "filtered_failing_index =
     \<lparr>similarity_search_with_score = (\<lambda>q k. Inr [(sample_doc, 0.2)]),
      similarity_search = (\<lambda>q k. Inl (OtherException (ustr ''plain search failed''))),
      docstore = None\<rparr>"

definition filtered_failing_chatbot :: chatbot where
  "filtered_failing_chatbot = \<lparr>vectorstore = Some filtered_failing_index, history = []\<rparr>"

definition four_turns :: "(pystr \<times> pystr) list" where
  "four_turns =
     [(ustr ''q1'', ustr ''a1''), (ustr ''q2'', ustr ''a2''), (ustr ''q3'', ustr ''a3''),
      (ustr ''q4'', ustr ''a4'')]"

section \<open>Auxiliary facts\<close>

lemma slice_from_last: "0 < n \<Longrightarrow> slice_from (- n) xs = drop (length xs - nat n) xs"
  by (auto simp: slice_from_def nat_diff_distrib' intro: arg_cong [where f = "\<lambda>k. drop k xs"])

lemma last_three: "slice_from (- 3) h = drop (length h - 3) h"
  using slice_from_last [of 3 h] by simp

lemma map_enumerate_from_one:
  "map (\<lambda>(i, x). f i x) (enumerate 1 xs) = map (\<lambda>i. f (Suc i) (xs ! i)) [0..<length xs]"
  by (rule nth_equalityI) (simp_all add: nth_enumerate_eq)

lemma suffix_docx:
  "lower table (path_suffix (ustr ''uploads/report.docx'')) = ustr ''.docx''"
  by (simp add: lower_def ascii_lower_def path_suffix_def path_name_def ustr_def Let_def)

lemma suffix_txt:
  "lower table (path_suffix (ustr ''uploads/doc.txt'')) = ustr ''.txt''"
  by (simp add: lower_def ascii_lower_def path_suffix_def path_name_def ustr_def Let_def)


lemma kept_empty_iff:
  "map fst (filter (\<lambda>(doc, score). RAG_MIN_SCORE cfg \<le> score) pairs) = []
   \<longleftrightarrow> (\<forall>(doc, score) \<in> set pairs. score < RAG_MIN_SCORE cfg)"
  by (auto simp: filter_empty_conv not_le)


lemma raise_for_status_error:
  "400 \<le> response_status_code r \<and> response_status_code r < 600 \<Longrightarrow>
   \<exists>m. raise_for_status r = Some (HTTPError (response_status_code r) m)"
  by (auto simp: raise_for_status_def)

lemma raise_for_status_other:
  "response_status_code r < 400 \<or> 600 \<le> response_status_code r \<Longrightarrow> raise_for_status r = None"
  by (auto simp: raise_for_status_def)

lemma call_groq_timeout:
  "groq_request post prompt = Inl (Timeout m) \<longrightarrow>
      call_groq post prompt =
        [9203] @ ustr '' La requ'' @ [234] @ ustr ''te a pris trop de temps. Veuillez r''
          @ [233] @ ustr ''essayer avec une question plus courte.''"
  by (simp add: call_groq_def)

lemma api_error_holds_code:
  "sublist (ustr ''('' @ str_int c @ ustr '')'')
     ([9888, 65039] @ ustr '' Erreur API ('' @ str_int c @ ustr ''). Veuillez r'' @ [233]
          @ ustr ''essayer.'')"
proof -
  have a: "sublist (ustr ''('' @ str_int c @ ustr '')'')
      (([9888, 65039] @ ustr '' Erreur API'' @ [32]) @ (ustr ''('' @ str_int c @ ustr '')'')
       @ (ustr ''. Veuillez r'' @ [233] @ ustr ''essayer.''))"
    by (rule sublist_appendI)
  have b: "([9888, 65039] @ ustr '' Erreur API'' @ [32]) @ (ustr ''('' @ str_int c @ ustr '')'')
       @ (ustr ''. Veuillez r'' @ [233] @ ustr ''essayer.'')
     = [9888, 65039] @ ustr '' Erreur API ('' @ str_int c @ ustr ''). Veuillez r'' @ [233]
          @ ustr ''essayer.''"
    by (simp add: ustr_def)
  show ?thesis using a by (simp only: b)
qed

lemma call_groq_http_error:
  "groq_request post prompt = Inl (HTTPError c m) \<longrightarrow>
        call_groq post prompt =
          [9888, 65039] @ ustr '' Erreur API ('' @ str_int c @ ustr ''). Veuillez r'' @ [233]
          @ ustr ''essayer.''
        \<and> sublist (ustr ''('' @ str_int c @ ustr '')'') (call_groq post prompt)"
proof
  assume "groq_request post prompt = Inl (HTTPError c m)"
  then have eq: "call_groq post prompt =
          [9888, 65039] @ ustr '' Erreur API ('' @ str_int c @ ustr ''). Veuillez r'' @ [233]
          @ ustr ''essayer.''"
    by (simp add: call_groq_def)
  show "call_groq post prompt =
          [9888, 65039] @ ustr '' Erreur API ('' @ str_int c @ ustr ''). Veuillez r'' @ [233]
          @ ustr ''essayer.''
        \<and> sublist (ustr ''('' @ str_int c @ ustr '')'') (call_groq post prompt)"
    unfolding eq using api_error_holds_code [of c] by simp
qed

lemma call_groq_unexpected:
  "groq_request post prompt = Inl (ValueError m) \<or> groq_request post prompt = Inl (OSError m)
        \<or> groq_request post prompt = Inl (OtherException m) \<longrightarrow>
        call_groq post prompt =
          [10060] @ ustr '' Une erreur inattendue s'est produite. Veuillez r'' @ [233]
          @ ustr ''essayer.''"
  by (auto simp: call_groq_def)

lemma call_groq_success:
  "groq_request post prompt = Inr content \<longrightarrow> call_groq post prompt = content"
  by (simp add: call_groq_def)

lemma groq_request_post_raises:
  "post prompt = Inl e \<longrightarrow> groq_request post prompt = Inl e"
  by (simp add: groq_request_def)

lemma call_groq_error_status:
  "post prompt = Inr r \<and> 400 \<le> response_status_code r \<and> response_status_code r < 600 \<longrightarrow>
        call_groq post prompt =
          [9888, 65039] @ ustr '' Erreur API ('' @ str_int (response_status_code r) @ ustr ''). Veuillez r'' @ [233]
          @ ustr ''essayer.''"
proof
  assume h: "post prompt = Inr r \<and> 400 \<le> response_status_code r \<and> response_status_code r < 600"
  then obtain m where "raise_for_status r = Some (HTTPError (response_status_code r) m)"
    using raise_for_status_error [of r] by blast
  with h have "groq_request post prompt = Inl (HTTPError (response_status_code r) m)"
    by (simp add: groq_request_def)
  then show "call_groq post prompt =
          [9888, 65039] @ ustr '' Erreur API ('' @ str_int (response_status_code r) @ ustr ''). Veuillez r'' @ [233]
          @ ustr ''essayer.''"
    by (simp add: call_groq_def)
qed

lemma groq_request_other_status:
  "post prompt = Inr r \<and> (response_status_code r < 400 \<or> 600 \<le> response_status_code r) \<longrightarrow>
        groq_request post prompt = choices_0_message_content r"
proof
  assume h: "post prompt = Inr r \<and> (response_status_code r < 400 \<or> 600 \<le> response_status_code r)"
  then have "raise_for_status r = None"
    using raise_for_status_other [of r] by blast
  with h show "groq_request post prompt = choices_0_message_content r"
    by (simp add: groq_request_def)
qed

lemma call_groq_cases:
  "call_groq post prompt =
          [9203] @ ustr '' La requ'' @ [234] @ ustr ''te a pris trop de temps. Veuillez r''
          @ [233] @ ustr ''essayer avec une question plus courte.''
        \<or> call_groq post prompt =
          [10060] @ ustr '' Une erreur inattendue s'est produite. Veuillez r'' @ [233]
          @ ustr ''essayer.''
        \<or> (\<exists>c. call_groq post prompt =
          [9888, 65039] @ ustr '' Erreur API ('' @ str_int c @ ustr ''). Veuillez r'' @ [233]
          @ ustr ''essayer.'')
        \<or> groq_request post prompt = Inr (call_groq post prompt)"
proof (cases "groq_request post prompt")
  case (Inl e)
  then show ?thesis by (cases e) (auto simp: call_groq_def)
next
  case (Inr content)
  then show ?thesis by (simp add: call_groq_def)
qed

section \<open>The chatbot answers without the LLM when it has nothing to say\<close>



section \<open>The history window\<close>

text \<open>
  Claim C2.  With the maximum history length configured as 0, two questions answered
  from a loaded index leave two turns in the history: the trimming slice
  \<^verbatim>\<open>history[-0:]\<close> is the whole list, so the history is never cut and its length
  exceeds the configured maximum.
\<close>

theorem history_grows_past_zero_maximum:
  "MAX_HISTORY_LENGTH no_history_config = 0
   \<and> history (run no_history_config sample_chatbot
        [Ask (ustr ''q1'') 4 sample_api, Ask (ustr ''q2'') 4 sample_api])
      = [(ustr ''q1'', ustr ''Paris''), (ustr ''q2'', ustr ''Paris'')]"
  by (simp add: no_history_config_def default_config_def sample_chatbot_def run_def ask_def
      retrieve_def sample_index_def sample_api_def call_groq_def groq_request_def
      raise_for_status_def add_to_history_def slice_from_def Let_def)

text \<open>
  For a positive maximum the window behaves as a FIFO: after an append the history is
  the most recent turns, at most the maximum many, in arrival order, the new turn last;
  and no sequence of operations makes the history longer than the maximum.
\<close>

lemma add_to_history_fifo:
  "0 < MAX_HISTORY_LENGTH cfg \<Longrightarrow>
   history (add_to_history cfg cb question answer) =
     drop (Suc (length (history cb)) - nat (MAX_HISTORY_LENGTH cfg))
       (history cb @ [(question, answer)])"
  by (simp add: add_to_history_def Let_def slice_from_last)

lemma add_to_history_bounded:
  "0 < MAX_HISTORY_LENGTH cfg \<Longrightarrow>
   int (length (history (add_to_history cfg cb question answer))) \<le> MAX_HISTORY_LENGTH cfg"
  by (simp add: add_to_history_fifo)

lemma add_to_history_last:
  "0 < MAX_HISTORY_LENGTH cfg \<Longrightarrow>
   last (history (add_to_history cfg cb question answer)) = (question, answer)"
  by (simp add: add_to_history_fifo)

lemma ask_history:
  "history (fst (snd (ask cfg post cb question k))) = history cb
   \<or> (\<exists>answer. fst (snd (ask cfg post cb question k)) = add_to_history cfg cb question answer)"
  by (auto simp: ask_def Let_def split: option.splits sum.splits prod.splits)

lemma step_bounded:
  "0 < MAX_HISTORY_LENGTH cfg \<Longrightarrow> int (length (history cb)) \<le> MAX_HISTORY_LENGTH cfg \<Longrightarrow>
   int (length (history (step cfg cb opn))) \<le> MAX_HISTORY_LENGTH cfg"
proof (cases opn)
  case (Ask question k post)
  assume pos: "0 < MAX_HISTORY_LENGTH cfg"
    and le: "int (length (history cb)) \<le> MAX_HISTORY_LENGTH cfg"
  from ask_history [of cfg post cb question k] show ?thesis
  proof
    assume "history (fst (snd (ask cfg post cb question k))) = history cb"
    with Ask le show ?thesis by simp
  next
    assume "\<exists>answer. fst (snd (ask cfg post cb question k))
               = add_to_history cfg cb question answer"
    with Ask pos show ?thesis by (auto simp: add_to_history_bounded)
  qed
next
  case ClearHistory
  assume "0 < MAX_HISTORY_LENGTH cfg"
  with ClearHistory show ?thesis by (simp add: clear_history_def)
next
  case (Rebuild env file_path save_to_disk)
  assume "int (length (history cb)) \<le> MAX_HISTORY_LENGTH cfg"
  with Rebuild show ?thesis by (simp add: rebuild_from_file_def split: sum.splits)
qed

lemma run_bounded:
  "0 < MAX_HISTORY_LENGTH cfg \<Longrightarrow> int (length (history cb)) \<le> MAX_HISTORY_LENGTH cfg \<Longrightarrow>
   int (length (history (run cfg cb ops))) \<le> MAX_HISTORY_LENGTH cfg"
  unfolding run_def
  by (induction ops arbitrary: cb) (simp_all add: step_bounded)

section \<open>Retrieval and its fallback\<close>

text \<open>
  Claim C3.  For every query, index and \<open>k\<close>, \<open>retrieve\<close> runs the plain search exactly
  when the scored search raises or no scored result reaches the minimum score.  In that
  case its outcome is that of the plain search for the same query and \<open>k\<close>, whatever
  it is; otherwise it returns the documents of the scored results whose score is at
  least \<open>RAG_MIN_SCORE\<close>, in the order the engine gave them, without a second search.
\<close>

theorem retrieve_fallback:
  "(PlainSearch question k \<in> set (snd (retrieve cfg vs question k)) \<longleftrightarrow>
      (case similarity_search_with_score vs question k of
         Inl e \<Rightarrow> True
       | Inr pairs \<Rightarrow> \<forall>(doc, score) \<in> set pairs. score < RAG_MIN_SCORE cfg))
   \<and> (PlainSearch question k \<in> set (snd (retrieve cfg vs question k)) \<longrightarrow>
        retrieve cfg vs question k =
          (similarity_search vs question k, [ScoredSearch question k, PlainSearch question k]))
   \<and> (PlainSearch question k \<notin> set (snd (retrieve cfg vs question k)) \<longrightarrow>
        (\<exists>pairs. similarity_search_with_score vs question k = Inr pairs
           \<and> retrieve cfg vs question k =
               (Inr (map fst (filter (\<lambda>(doc, score). score \<ge> RAG_MIN_SCORE cfg) pairs)),
                [ScoredSearch question k])))"
proof (cases "similarity_search_with_score vs question k")
  case (Inl e)
  then show ?thesis by (simp add: retrieve_def)
next
  case (Inr pairs)
  show ?thesis
  proof (cases "\<forall>(doc, score) \<in> set pairs. score < RAG_MIN_SCORE cfg")
    case True
    with Inr kept_empty_iff [of cfg pairs] show ?thesis
      by (simp add: retrieve_def Let_def)
  next
    case False
    with Inr kept_empty_iff [of cfg pairs] show ?thesis
      by (simp add: retrieve_def Let_def)
  qed
qed

text \<open>An index with a result above the floor, one with all results below it, and one whose searches raise.\<close>

theorem retrieve_fallback_witness:
  "retrieve default_config sample_index (ustr ''Q?'') 4
     = (Inr [sample_doc], [ScoredSearch (ustr ''Q?'') 4])
   \<and> retrieve default_config low_score_index (ustr ''Q?'') 4
     = (Inr [sample_doc], [ScoredSearch (ustr ''Q?'') 4, PlainSearch (ustr ''Q?'') 4])
   \<and> retrieve default_config failing_index (ustr ''Q?'') 4
     = (Inl (OtherException (ustr ''plain search failed'')),
        [ScoredSearch (ustr ''Q?'') 4, PlainSearch (ustr ''Q?'') 4])"
proof -
  have a: "PlainSearch (ustr ''Q?'') 4
      \<notin> set (snd (retrieve default_config sample_index (ustr ''Q?'') 4))"
    using retrieve_fallback [of "ustr ''Q?''" 4 default_config sample_index]
    by (simp add: sample_index_def default_config_def)
  have b: "PlainSearch (ustr ''Q?'') 4
      \<in> set (snd (retrieve default_config low_score_index (ustr ''Q?'') 4))"
    using retrieve_fallback [of "ustr ''Q?''" 4 default_config low_score_index]
    by (simp add: low_score_index_def default_config_def)
  have c: "PlainSearch (ustr ''Q?'') 4
      \<in> set (snd (retrieve default_config failing_index (ustr ''Q?'') 4))"
    using retrieve_fallback [of "ustr ''Q?''" 4 default_config failing_index]
    by (simp add: failing_index_def)
  from a retrieve_fallback [of "ustr ''Q?''" 4 default_config sample_index]
  have "retrieve default_config sample_index (ustr ''Q?'') 4
     = (Inr [sample_doc], [ScoredSearch (ustr ''Q?'') 4])"
    by (simp add: sample_index_def default_config_def)
  moreover from b retrieve_fallback [of "ustr ''Q?''" 4 default_config low_score_index]
  have "retrieve default_config low_score_index (ustr ''Q?'') 4
     = (Inr [sample_doc], [ScoredSearch (ustr ''Q?'') 4, PlainSearch (ustr ''Q?'') 4])"
    by (simp add: low_score_index_def)
  moreover from c retrieve_fallback [of "ustr ''Q?''" 4 default_config failing_index]
  have "retrieve default_config failing_index (ustr ''Q?'') 4
     = (Inl (OtherException (ustr ''plain search failed'')),
        [ScoredSearch (ustr ''Q?'') 4, PlainSearch (ustr ''Q?'') 4])"
    by (simp add: failing_index_def)
  ultimately show ?thesis by simp
qed

section \<open>Rebuilding the index\<close>

text \<open>
  Claim C4.  If \<open>ingest_file\<close> raises, \<open>rebuild_from_file\<close> raises the same exception
  and leaves the chatbot, vector store and readiness included, as it was; if it returns
  an index, that index replaces the old one, the chatbot is ready and the history is
  untouched.  Ingestion raises for an extension other than \<^verbatim>\<open>.txt\<close> and \<^verbatim>\<open>.pdf\<close>, for an
  empty extraction, and when the embedding model or the index builder fails.
\<close>

theorem rebuild_from_file_atomic:
  "(ingest_file cfg env file_path save_to_disk = Inl e \<longrightarrow>
      rebuild_from_file cfg env cb file_path save_to_disk = (Inl e, cb))
   \<and> (ingest_file cfg env file_path save_to_disk = Inr vs \<longrightarrow>
        rebuild_from_file cfg env cb file_path save_to_disk
          = (Inr (), cb\<lparr>vectorstore := Some vs\<rparr>)
        \<and> is_ready (snd (rebuild_from_file cfg env cb file_path save_to_disk))
        \<and> history (snd (rebuild_from_file cfg env cb file_path save_to_disk)) = history cb)
   \<and> (lower (unicode_lower env) (path_suffix file_path) \<notin> ALLOWED_EXTENSIONS \<longrightarrow>
        (\<exists>m. ingest_file cfg env file_path save_to_disk = Inl (ValueError m)))
   \<and> (load_file env file_path = Inr [] \<longrightarrow>
        (\<exists>m. ingest_file cfg env file_path save_to_disk = Inl (ValueError m)))
   \<and> (load_file env file_path = Inr docs \<and> docs \<noteq> [] \<and> split_documents env docs = Inr chunks
        \<and> (SentenceTransformerEmbeddings env (EMBEDDING_MODEL cfg) = Some e \<or>
            SentenceTransformerEmbeddings env (EMBEDDING_MODEL cfg) = None
            \<and> FAISS_from_documents env chunks (EMBEDDING_MODEL cfg) = Inl e) \<longrightarrow>
        ingest_file cfg env file_path save_to_disk = Inl e)"
  by (auto simp: rebuild_from_file_def is_ready_def ingest_file_def load_file_def bind_exn_def
      get_embeddings_def ALLOWED_EXTENSIONS_def Let_def)

text \<open>An unsupported extension and a failing index builder leave the chatbot as it was; a text file that loads replaces the index.\<close>

theorem rebuild_from_file_atomic_witness:
  "lower (unicode_lower sample_env) (path_suffix (ustr ''uploads/report.docx''))
     \<notin> ALLOWED_EXTENSIONS
   \<and> rebuild_from_file default_config sample_env sample_chatbot (ustr ''uploads/report.docx'')
         False
       = (Inl (ValueError (ustr ''Unsupported file extension: '' @ [39] @ ustr ''.docx'' @ [39])),
          sample_chatbot)
   \<and> rebuild_from_file default_config failing_env sample_chatbot (ustr ''uploads/doc.txt'') False
       = (Inl (OtherException (ustr ''index'')), sample_chatbot)
   \<and> rebuild_from_file default_config sample_env fresh_chatbot (ustr ''uploads/doc.txt'') False
       = (Inr (), fresh_chatbot\<lparr>vectorstore := Some sample_index\<rparr>)
   \<and> is_ready
        (snd (rebuild_from_file default_config sample_env fresh_chatbot (ustr ''uploads/doc.txt'')
                False))"
proof -
  have bad: "lower (unicode_lower sample_env) (path_suffix (ustr ''uploads/report.docx''))
      \<notin> ALLOWED_EXTENSIONS"
    unfolding suffix_docx by (simp add: ALLOWED_EXTENSIONS_def ustr_def)
  have quoted: "py_repr (unicode_printable sample_env) (ustr ''.docx'')
      = [39] @ ustr ''.docx'' @ [39]"
    by (simp add: py_repr_def repr_char_def ustr_def)
  have a: "ingest_file default_config sample_env (ustr ''uploads/report.docx'') False
       = Inl (ValueError (ustr ''Unsupported file extension: '' @ [39] @ ustr ''.docx'' @ [39]))"
    by (simp add: ingest_file_def load_file_def bind_exn_def suffix_docx quoted Let_def)
       (simp add: ustr_def)
  have b: "ingest_file default_config failing_env (ustr ''uploads/doc.txt'') False
       = Inl (OtherException (ustr ''index''))"
    by (simp add: ingest_file_def load_file_def bind_exn_def get_embeddings_def suffix_txt Let_def
        failing_env_def sample_env_def)
  have c: "ingest_file default_config sample_env (ustr ''uploads/doc.txt'') False
       = Inr sample_index"
    by (simp add: ingest_file_def load_file_def bind_exn_def get_embeddings_def suffix_txt Let_def
        sample_env_def)
  from a rebuild_from_file_atomic [where cfg = default_config and env = sample_env
      and cb = sample_chatbot and file_path = "ustr ''uploads/report.docx''"
      and save_to_disk = False
      and e = "ValueError (ustr ''Unsupported file extension: '' @ [39] @ ustr ''.docx'' @ [39])"]
  have 1: "rebuild_from_file default_config sample_env sample_chatbot
         (ustr ''uploads/report.docx'') False
       = (Inl (ValueError (ustr ''Unsupported file extension: '' @ [39] @ ustr ''.docx'' @ [39])),
          sample_chatbot)"
    by blast
  from b rebuild_from_file_atomic [where cfg = default_config and env = failing_env
      and cb = sample_chatbot and file_path = "ustr ''uploads/doc.txt''"
      and save_to_disk = False and e = "OtherException (ustr ''index'')"]
  have 2: "rebuild_from_file default_config failing_env sample_chatbot (ustr ''uploads/doc.txt'')
         False
       = (Inl (OtherException (ustr ''index'')), sample_chatbot)"
    by blast
  from c rebuild_from_file_atomic [where cfg = default_config and env = sample_env
      and cb = fresh_chatbot and file_path = "ustr ''uploads/doc.txt''"
      and save_to_disk = False and vs = sample_index]
  have 3: "rebuild_from_file default_config sample_env fresh_chatbot (ustr ''uploads/doc.txt'')
         False
       = (Inr (), fresh_chatbot\<lparr>vectorstore := Some sample_index\<rparr>)
     \<and> is_ready
          (snd (rebuild_from_file default_config sample_env fresh_chatbot
                  (ustr ''uploads/doc.txt'') False))"
    by blast
  from bad 1 2 3 show ?thesis by blast
qed

section \<open>The LLM client absorbs every failure\<close>

text \<open>
  Claim C5, as the code has it.  \<open>call_groq\<close> always returns a string.  A timeout in
  the request gives the fixed message that the request took too long.  An HTTP error,
  which is what a response with a status from 400 to 599 raises, gives the API error
  message, and that message holds the status code of the response in decimal.  Any
  other exception gives the fixed message of an unexpected error.  When the request
  succeeds, the text of the first completion's message is returned as it is; a response
  with a status below 400 or above 599 is read in that same way, whatever its status.
\<close>

theorem call_groq_never_raises:
  "(groq_request post prompt = Inl (Timeout m) \<longrightarrow>
      call_groq post prompt =
        [9203] @ ustr '' La requ'' @ [234] @ ustr ''te a pris trop de temps. Veuillez r''
          @ [233] @ ustr ''essayer avec une question plus courte.'')
   \<and> (groq_request post prompt = Inl (HTTPError c m) \<longrightarrow>
        call_groq post prompt =
          [9888, 65039] @ ustr '' Erreur API ('' @ str_int c @ ustr ''). Veuillez r'' @ [233]
          @ ustr ''essayer.''
        \<and> sublist (ustr ''('' @ str_int c @ ustr '')'') (call_groq post prompt))
   \<and> (groq_request post prompt = Inl (ValueError m) \<or> groq_request post prompt = Inl (OSError m)
        \<or> groq_request post prompt = Inl (OtherException m) \<longrightarrow>
        call_groq post prompt =
          [10060] @ ustr '' Une erreur inattendue s'est produite. Veuillez r'' @ [233]
          @ ustr ''essayer.'')
   \<and> (groq_request post prompt = Inr content \<longrightarrow> call_groq post prompt = content)
   \<and> (post prompt = Inl e \<longrightarrow> groq_request post prompt = Inl e)
   \<and> (post prompt = Inr r \<and> 400 \<le> response_status_code r \<and> response_status_code r < 600 \<longrightarrow>
        call_groq post prompt =
          [9888, 65039] @ ustr '' Erreur API ('' @ str_int (response_status_code r) @ ustr ''). Veuillez r'' @ [233]
          @ ustr ''essayer.'')
   \<and> (post prompt = Inr r \<and> (response_status_code r < 400 \<or> 600 \<le> response_status_code r) \<longrightarrow>
        groq_request post prompt = choices_0_message_content r)
   \<and> (call_groq post prompt =
          [9203] @ ustr '' La requ'' @ [234] @ ustr ''te a pris trop de temps. Veuillez r''
          @ [233] @ ustr ''essayer avec une question plus courte.''
        \<or> call_groq post prompt =
          [10060] @ ustr '' Une erreur inattendue s'est produite. Veuillez r'' @ [233]
          @ ustr ''essayer.''
        \<or> (\<exists>c. call_groq post prompt =
          [9888, 65039] @ ustr '' Erreur API ('' @ str_int c @ ustr ''). Veuillez r'' @ [233]
          @ ustr ''essayer.'')
        \<or> groq_request post prompt = Inr (call_groq post prompt))"
  by (intro conjI call_groq_timeout call_groq_http_error call_groq_unexpected
      call_groq_success groq_request_post_raises call_groq_error_status
      groq_request_other_status call_groq_cases)

text \<open>
  The claim as stated, that every response outside 2xx gives the API error message,
  fails: a 304 without a body gives the message of an unexpected error, and a 300 whose
  body holds a completion gives that completion's text.
\<close>

theorem call_groq_other_status_counterexample:
  "call_groq not_modified_api (ustr ''p'') =
     [10060] @ ustr '' Une erreur inattendue s'est produite. Veuillez r'' @ [233]
          @ ustr ''essayer.''
   \<and> call_groq not_modified_api (ustr ''p'') \<noteq>
     [9888, 65039] @ ustr '' Erreur API (304). Veuillez r'' @ [233]
          @ ustr ''essayer.''
   \<and> call_groq multiple_choices_api (ustr ''p'') = ustr ''Paris''
   \<and> call_groq multiple_choices_api (ustr ''p'') \<noteq>
     [9888, 65039] @ ustr '' Erreur API (300). Veuillez r'' @ [233]
          @ ustr ''essayer.''"
  by (simp add: call_groq_def groq_request_def raise_for_status_def not_modified_api_def
      multiple_choices_api_def ustr_def)

text \<open>A timeout, a 503 response, a response without the expected JSON, and a completion.\<close>

theorem call_groq_never_raises_witness:
  "call_groq timeout_api (ustr ''p'') =
     [9203] @ ustr '' La requ'' @ [234] @ ustr ''te a pris trop de temps. Veuillez r''
          @ [233] @ ustr ''essayer avec une question plus courte.''
   \<and> call_groq unavailable_api (ustr ''p'') =
     [9888, 65039] @ ustr '' Erreur API (503). Veuillez r'' @ [233]
          @ ustr ''essayer.''
   \<and> call_groq malformed_api (ustr ''p'') =
     [10060] @ ustr '' Une erreur inattendue s'est produite. Veuillez r'' @ [233]
          @ ustr ''essayer.''
   \<and> call_groq sample_api (ustr ''p'') = ustr ''Paris''"
proof -
  have a: "groq_request timeout_api (ustr ''p'') = Inl (Timeout (ustr ''read timed out''))"
    by (simp add: groq_request_def timeout_api_def)
  have b: "unavailable_api (ustr ''p'')
      = Inr \<lparr>response_status_code = 503, reason = ustr ''Service Unavailable'', url = GROQ_URL,
             choices_0_message_content = Inl (OtherException (ustr ''no JSON''))\<rparr>
      \<and> 400 \<le> response_status_code
            \<lparr>response_status_code = 503, reason = ustr ''Service Unavailable'', url = GROQ_URL,
             choices_0_message_content = Inl (OtherException (ustr ''no JSON''))\<rparr>
      \<and> response_status_code
            \<lparr>response_status_code = 503, reason = ustr ''Service Unavailable'', url = GROQ_URL,
             choices_0_message_content = Inl (OtherException (ustr ''no JSON''))\<rparr> < 600"
    by (simp add: unavailable_api_def)
  have c: "groq_request malformed_api (ustr ''p'') = Inl (OtherException (ustr ''choices''))"
    by (simp add: groq_request_def raise_for_status_def malformed_api_def)
  have d: "groq_request sample_api (ustr ''p'') = Inr (ustr ''Paris'')"
    by (simp add: groq_request_def raise_for_status_def sample_api_def)
  from a call_groq_never_raises [where post = timeout_api and prompt = "ustr ''p''"
      and m = "ustr ''read timed out''"]
  have 1: "call_groq timeout_api (ustr ''p'') =
     [9203] @ ustr '' La requ'' @ [234] @ ustr ''te a pris trop de temps. Veuillez r''
          @ [233] @ ustr ''essayer avec une question plus courte.''"
    by blast
  from b call_groq_never_raises [where post = unavailable_api and prompt = "ustr ''p''"
      and r = "\<lparr>response_status_code = 503, reason = ustr ''Service Unavailable'',
                 url = GROQ_URL,
                 choices_0_message_content = Inl (OtherException (ustr ''no JSON''))\<rparr>"]
  have "call_groq unavailable_api (ustr ''p'') =
     [9888, 65039] @ ustr '' Erreur API ('' @ str_int (response_status_code
              \<lparr>response_status_code = 503, reason = ustr ''Service Unavailable'',
               url = GROQ_URL,
               choices_0_message_content = Inl (OtherException (ustr ''no JSON''))\<rparr>) @ ustr ''). Veuillez r'' @ [233]
          @ ustr ''essayer.''"
    by blast
  then have 2: "call_groq unavailable_api (ustr ''p'') =
     [9888, 65039] @ ustr '' Erreur API (503). Veuillez r'' @ [233]
          @ ustr ''essayer.''"
    by (simp add: str_int_def ustr_def)
  from c call_groq_never_raises [where post = malformed_api and prompt = "ustr ''p''"
      and m = "ustr ''choices''"]
  have 3: "call_groq malformed_api (ustr ''p'') =
     [10060] @ ustr '' Une erreur inattendue s'est produite. Veuillez r'' @ [233]
          @ ustr ''essayer.''"
    by blast
  from d call_groq_never_raises [where post = sample_api and prompt = "ustr ''p''"
      and content = "ustr ''Paris''"]
  have 4: "call_groq sample_api (ustr ''p'') = ustr ''Paris''"
    by blast
  from 1 2 3 4 show ?thesis by blast
qed

section \<open>The prompt\<close>

text \<open>
  Claim C6, as the code has it.  The prompt is the fixed instruction text, then the
  block of recent history, then the context block under its header, then the question
  and the header of the answer.  The context block numbers the passages from 1 in
  retrieval order and labels a passage with the base name of its source when the
  metadata has a non-empty one.  The history block is empty for an empty history;
  otherwise it renders the last three turns at most, numbered from 1, each as a
  question line and an answer line, the most recent turn last.
\<close>

theorem build_prompt_layout:
  "build_prompt question context_docs h =
     INSTRUCTIONS @ history_block h @ CONTEXT_HEADER @ context_block context_docs
     @ QUESTION_HEADER @ question @ ANSWER_HEADER
   \<and> context_block context_docs =
       join [10, 10] (map (\<lambda>i. passage (Suc i) (context_docs ! i)) [0..<length context_docs])
   \<and> (metadata doc (ustr ''source'') = Some s \<and> s \<noteq> [] \<longrightarrow>
        passage i doc =
          ustr ''--- Extrait '' @ str_nat i @ ustr '' [Source: '' @ basename s @ ustr '']''
          @ ustr '' ---'' @ [10] @ page_content doc)
   \<and> (metadata doc (ustr ''source'') = None \<or> metadata doc (ustr ''source'') = Some [] \<longrightarrow>
        passage i doc = ustr ''--- Extrait '' @ str_nat i @ ustr '' ---'' @ [10] @ page_content doc)
   \<and> history_block [] = []
   \<and> (h \<noteq> [] \<longrightarrow>
        history_block h =
          ustr ''HISTORIQUE R'' @ [201] @ ustr ''CENT:'' @ [10]
          @ join [10, 10]
              (map (\<lambda>i. history_lines (Suc i) (drop (length h - 3) h ! i))
                 [0..<min 3 (length h)])
          @ [10, 10]
        \<and> drop (length h - 3) h ! (min 3 (length h) - 1) = last h)
   \<and> history_lines idx (q, a) =
       ustr ''Q'' @ str_nat idx @ ustr '': '' @ q @ [10] @ ustr ''A'' @ str_nat idx @ ustr '': '' @ a"
proof (intro conjI impI)
  show "build_prompt question context_docs h =
     INSTRUCTIONS @ history_block h @ CONTEXT_HEADER @ context_block context_docs
     @ QUESTION_HEADER @ question @ ANSWER_HEADER"
    by (simp add: build_prompt_def)
  show "context_block context_docs =
       join [10, 10] (map (\<lambda>i. passage (Suc i) (context_docs ! i)) [0..<length context_docs])"
    by (simp only: context_block_def map_enumerate_from_one)
  show "history_block [] = []"
    by (simp add: history_block_def)
  show "history_lines idx (q, a) =
       ustr ''Q'' @ str_nat idx @ ustr '': '' @ q @ [10] @ ustr ''A'' @ str_nat idx @ ustr '': '' @ a"
    by (simp add: history_lines_def)
next
  assume "metadata doc (ustr ''source'') = Some s \<and> s \<noteq> []"
  then show "passage i doc =
          ustr ''--- Extrait '' @ str_nat i @ ustr '' [Source: '' @ basename s @ ustr '']''
          @ ustr '' ---'' @ [10] @ page_content doc"
    by (simp add: passage_def)
next
  assume "metadata doc (ustr ''source'') = None \<or> metadata doc (ustr ''source'') = Some []"
  then show "passage i doc = ustr ''--- Extrait '' @ str_nat i @ ustr '' ---'' @ [10] @ page_content doc"
    by (auto simp: passage_def)
next
  assume ne: "h \<noteq> []"
  have len: "length (drop (length h - 3) h) = min 3 (length h)"
    by simp
  have "map (\<lambda>(idx, t). history_lines idx t) (enumerate 1 (slice_from (- 3) h))
        = map (\<lambda>i. history_lines (Suc i) (drop (length h - 3) h ! i)) [0..<min 3 (length h)]"
    by (simp only: last_three map_enumerate_from_one len)
  with ne show "history_block h =
          ustr ''HISTORIQUE R'' @ [201] @ ustr ''CENT:'' @ [10]
          @ join [10, 10]
              (map (\<lambda>i. history_lines (Suc i) (drop (length h - 3) h ! i))
                 [0..<min 3 (length h)])
          @ [10, 10]"
    by (simp add: history_block_def)
  from ne have "0 < length h" by simp
  then have "length h - 3 < length h" by arith
  then have "drop (length h - 3) h \<noteq> []" by simp
  then have "last (drop (length h - 3) h) = drop (length h - 3) h ! (min 3 (length h) - 1)"
    using len by (simp add: last_conv_nth)
  moreover from ne have "last (drop (length h - 3) h) = last h"
    by simp
  ultimately show "drop (length h - 3) h ! (min 3 (length h) - 1) = last h"
    by simp
qed

text \<open>
  The layout the claim states, instruction text followed by the context block, fails:
  with one turn of history, what follows the instruction text is the history block, and
  neither the header of the context nor its first passage.
\<close>

theorem build_prompt_history_first:
  "history_block [(ustr ''a'', ustr ''b'')] \<noteq> []
   \<and> prefix (INSTRUCTIONS @ history_block [(ustr ''a'', ustr ''b'')])
        (build_prompt (ustr ''Q?'') [plain_doc] [(ustr ''a'', ustr ''b'')])
   \<and> \<not> prefix (INSTRUCTIONS @ CONTEXT_HEADER)
        (build_prompt (ustr ''Q?'') [plain_doc] [(ustr ''a'', ustr ''b'')])
   \<and> \<not> prefix (INSTRUCTIONS @ context_block [plain_doc])
        (build_prompt (ustr ''Q?'') [plain_doc] [(ustr ''a'', ustr ''b'')])"
  by (simp add: build_prompt_def history_block_def CONTEXT_HEADER_def context_block_def
      passage_def plain_doc_def ustr_def enumerate_eq_zip)

text \<open>Two passages, one with a source, and a history of four turns, of which the last three are rendered.\<close>

theorem build_prompt_layout_witness:
  "metadata sample_doc (ustr ''source'') = Some (ustr ''uploads/doc.txt'')
   \<and> ustr ''uploads/doc.txt'' \<noteq> []
   \<and> passage 2 sample_doc =
       ustr ''--- Extrait 2 [Source: doc.txt] ---'' @ [10] @ ustr ''Paris is the capital of France.''
   \<and> metadata plain_doc (ustr ''source'') = None
   \<and> passage 1 plain_doc = ustr ''--- Extrait 1 ---'' @ [10] @ ustr ''Lyon''
   \<and> context_block [plain_doc, sample_doc] =
       passage 1 plain_doc @ [10, 10] @ passage 2 sample_doc
   \<and> four_turns \<noteq> []
   \<and> history_block four_turns =
       ustr ''HISTORIQUE R'' @ [201] @ ustr ''CENT:'' @ [10]
       @ ustr ''Q1: q2'' @ [10] @ ustr ''A1: a2'' @ [10, 10]
       @ ustr ''Q2: q3'' @ [10] @ ustr ''A2: a3'' @ [10, 10]
       @ ustr ''Q3: q4'' @ [10] @ ustr ''A3: a4'' @ [10, 10]
   \<and> build_prompt (ustr ''Q?'') [plain_doc, sample_doc] four_turns =
       INSTRUCTIONS @ history_block four_turns @ CONTEXT_HEADER
       @ context_block [plain_doc, sample_doc] @ QUESTION_HEADER @ ustr ''Q?'' @ ANSWER_HEADER"
proof -
  note layout = build_prompt_layout [where question = "ustr ''Q?''"
      and context_docs = "[plain_doc, sample_doc]" and h = four_turns]
  have src: "metadata sample_doc (ustr ''source'') = Some (ustr ''uploads/doc.txt'')
      \<and> ustr ''uploads/doc.txt'' \<noteq> []"
    by (simp add: sample_doc_def ustr_def)
  have nosrc: "metadata plain_doc (ustr ''source'') = None"
    by (simp add: plain_doc_def)
  have ne: "four_turns \<noteq> []"
    by (simp add: four_turns_def)
  from src layout [where doc = sample_doc and s = "ustr ''uploads/doc.txt''" and i = 2]
  have "passage 2 sample_doc =
          ustr ''--- Extrait '' @ str_nat 2 @ ustr '' [Source: '' @ basename (ustr ''uploads/doc.txt'')
          @ ustr '']'' @ ustr '' ---'' @ [10] @ page_content sample_doc"
    by blast
  then have p2: "passage 2 sample_doc =
       ustr ''--- Extrait 2 [Source: doc.txt] ---'' @ [10] @ ustr ''Paris is the capital of France.''"
    by (simp add: basename_def sample_doc_def ustr_def)
  from nosrc layout [where doc = plain_doc and i = 1]
  have "passage 1 plain_doc = ustr ''--- Extrait '' @ str_nat 1 @ ustr '' ---'' @ [10]
          @ page_content plain_doc"
    by blast
  then have p1: "passage 1 plain_doc = ustr ''--- Extrait 1 ---'' @ [10] @ ustr ''Lyon''"
    by (simp add: plain_doc_def ustr_def)
  from layout [where doc = plain_doc]
  have "context_block [plain_doc, sample_doc] =
       join [10, 10] (map (\<lambda>i. passage (Suc i) ([plain_doc, sample_doc] ! i))
         [0..<length [plain_doc, sample_doc]])"
    by blast
  then have cb: "context_block [plain_doc, sample_doc] =
       passage 1 plain_doc @ [10, 10] @ passage 2 sample_doc"
    by (simp add: upt_rec numeral_2_eq_2)
  from ne layout [where doc = plain_doc]
  have "history_block four_turns =
          ustr ''HISTORIQUE R'' @ [201] @ ustr ''CENT:'' @ [10]
          @ join [10, 10]
              (map (\<lambda>i. history_lines (Suc i) (drop (length four_turns - 3) four_turns ! i))
                 [0..<min 3 (length four_turns)])
          @ [10, 10]"
    by blast
  then have hb: "history_block four_turns =
       ustr ''HISTORIQUE R'' @ [201] @ ustr ''CENT:'' @ [10]
       @ ustr ''Q1: q2'' @ [10] @ ustr ''A1: a2'' @ [10, 10]
       @ ustr ''Q2: q3'' @ [10] @ ustr ''A2: a3'' @ [10, 10]
       @ ustr ''Q3: q4'' @ [10] @ ustr ''A3: a4'' @ [10, 10]"
    by (simp add: four_turns_def upt_rec history_lines_def ustr_def)
  from layout [where doc = plain_doc]
  have bp: "build_prompt (ustr ''Q?'') [plain_doc, sample_doc] four_turns =
       INSTRUCTIONS @ history_block four_turns @ CONTEXT_HEADER
       @ context_block [plain_doc, sample_doc] @ QUESTION_HEADER @ ustr ''Q?'' @ ANSWER_HEADER"
    by blast
  from src nosrc ne p1 p2 cb hb bp show ?thesis by blast
qed

section \<open>Uploads with an unsupported extension\<close>

text \<open>
  Claim C7.  When the extension of the sanitized file name is not \<^verbatim>\<open>.txt\<close> or \<^verbatim>\<open>.pdf\<close>,
  the upload route answers with status 400 and a message that contains the extension;
  nothing is saved, ingestion is not attempted, and the chatbot is unchanged.
\<close>

theorem upload_rejects_extension:
  "lower (unicode_lower env) (path_suffix (path_name file_filename)) \<notin> ALLOWED_EXTENSIONS \<Longrightarrow>
   (\<exists>r. upload_file cfg env save_upload cb file_filename save_index = (Inr r, cb, [])
        \<and> status_code r = 400 \<and> ok r = False
        \<and> message r = ustr ''Extension non support'' @ [233] @ ustr ''e : ''
             @ lower (unicode_lower env) (path_suffix (path_name file_filename))
             @ ustr ''. Formats accept'' @ [233] @ ustr ''s : .txt, .pdf''
        \<and> sublist (lower (unicode_lower env) (path_suffix (path_name file_filename))) (message r))"
proof -
  assume bad: "lower (unicode_lower env) (path_suffix (path_name file_filename)) \<notin> ALLOWED_EXTENSIONS"
  let ?ext = "lower (unicode_lower env) (path_suffix (path_name file_filename))"
  let ?pre = "ustr ''Extension non support'' @ [233] @ ustr ''e : ''"
  let ?post = "ustr ''. Formats accept'' @ [233] @ ustr ''s : .txt, .pdf''"
  have sub: "sublist ?ext (?pre @ ?ext @ ?post)"
    by (rule sublist_appendI)
  from bad have "upload_file cfg env save_upload cb file_filename save_index =
      (Inr \<lparr>status_code = 400, ok = False, message = ?pre @ ?ext @ ?post\<rparr>, cb, [])"
    by (simp add: upload_file_def Let_def)
  with sub show ?thesis by simp
qed

text \<open>The upload of report.docx, and of a name whose extension ends in a capital E with acute accent.\<close>

theorem upload_rejects_extension_witness:
  "lower (unicode_lower sample_env) (path_suffix (path_name (ustr ''report.docx''))) \<notin> ALLOWED_EXTENSIONS
   \<and> upload_file default_config sample_env (\<lambda>p. None) sample_chatbot (ustr ''report.docx'') False
       = (Inr \<lparr>status_code = 400, ok = False,
               message = ustr ''Extension non support'' @ [233] @ ustr ''e : .docx. Formats accept''
                 @ [233] @ ustr ''s : .txt, .pdf''\<rparr>,
          sample_chatbot, [])
   \<and> lower (unicode_lower sample_env) (path_suffix (path_name (ustr ''report.DOC'' @ [201])))
       \<notin> ALLOWED_EXTENSIONS
   \<and> upload_file default_config sample_env (\<lambda>p. None) sample_chatbot
         (ustr ''report.DOC'' @ [201]) False
       = (Inr \<lparr>status_code = 400, ok = False,
               message = ustr ''Extension non support'' @ [233] @ ustr ''e : .doc'' @ [233]
                 @ ustr ''. Formats accept'' @ [233] @ ustr ''s : .txt, .pdf''\<rparr>,
          sample_chatbot, [])"
proof -
  have ext: "lower (unicode_lower sample_env) (path_suffix (path_name (ustr ''report.docx''))) = ustr ''.docx''"
    by (simp add: lower_def ascii_lower_def path_suffix_def path_name_def ustr_def Let_def)
  have bad: "lower (unicode_lower sample_env) (path_suffix (path_name (ustr ''report.docx''))) \<notin> ALLOWED_EXTENSIONS"
    unfolding ext by (simp add: ALLOWED_EXTENSIONS_def ustr_def)
  from upload_rejects_extension [OF bad, where cfg = default_config
      and save_upload = "\<lambda>p. None" and cb = sample_chatbot and save_index = False]
  obtain r where
    "upload_file default_config sample_env (\<lambda>p. None) sample_chatbot (ustr ''report.docx'') False
       = (Inr r, sample_chatbot, [])"
    and "status_code r = 400" and "ok r = False"
    and "message r = ustr ''Extension non support'' @ [233] @ ustr ''e : ''
             @ lower (unicode_lower sample_env) (path_suffix (path_name (ustr ''report.docx'')))
             @ ustr ''. Formats accept'' @ [233] @ ustr ''s : .txt, .pdf''"
    by blast
  with bad ext have first:
    "upload_file default_config sample_env (\<lambda>p. None) sample_chatbot (ustr ''report.docx'') False
       = (Inr \<lparr>status_code = 400, ok = False,
               message = ustr ''Extension non support'' @ [233] @ ustr ''e : .docx. Formats accept''
                 @ [233] @ ustr ''s : .txt, .pdf''\<rparr>,
          sample_chatbot, [])"
    by (cases r) (simp add: ustr_def)
  have ext': "lower (unicode_lower sample_env)
      (path_suffix (path_name (ustr ''report.DOC'' @ [201]))) = ustr ''.doc'' @ [233]"
    by (simp add: lower_def sample_env_def path_suffix_def path_name_def ustr_def Let_def)
  have bad': "lower (unicode_lower sample_env)
      (path_suffix (path_name (ustr ''report.DOC'' @ [201]))) \<notin> ALLOWED_EXTENSIONS"
    unfolding ext' by (simp add: ALLOWED_EXTENSIONS_def ustr_def)
  from upload_rejects_extension [OF bad', where cfg = default_config
      and save_upload = "\<lambda>p. None" and cb = sample_chatbot and save_index = False]
  obtain r' where
    "upload_file default_config sample_env (\<lambda>p. None) sample_chatbot
         (ustr ''report.DOC'' @ [201]) False
       = (Inr r', sample_chatbot, [])"
    and "status_code r' = 400" and "ok r' = False"
    and "message r' = ustr ''Extension non support'' @ [233] @ ustr ''e : ''
             @ lower (unicode_lower sample_env)
                 (path_suffix (path_name (ustr ''report.DOC'' @ [201])))
             @ ustr ''. Formats accept'' @ [233] @ ustr ''s : .txt, .pdf''"
    by blast
  with ext' have second:
    "upload_file default_config sample_env (\<lambda>p. None) sample_chatbot
         (ustr ''report.DOC'' @ [201]) False
       = (Inr \<lparr>status_code = 400, ok = False,
               message = ustr ''Extension non support'' @ [233] @ ustr ''e : .doc'' @ [233]
                 @ ustr ''. Formats accept'' @ [233] @ ustr ''s : .txt, .pdf''\<rparr>,
          sample_chatbot, [])"
    by (cases r') (simp add: ustr_def)
  from bad first bad' second show ?thesis by blast
qed

section \<open>The status route\<close>

text \<open>
  Claim C8, as the code has it.  The status route returns the status \<^verbatim>\<open>ok\<close> and the
  chatbot's report.  Without an index the report is the state \<^verbatim>\<open>no_document\<close> alone.
  With an index it is the state \<^verbatim>\<open>ready\<close>, the fragment count and the name of an
  embedding model.  The count is the size of the index's document dictionary when
  introspection yields it, and null when the document store or its dictionary is
  missing or taking its size raises.  The name is that of the configured embedding
  model when \<open>EMBEDDING_MODEL\<close> has its default value.
\<close>

theorem route_status_report:
  "route_status cb = [(ustr ''status'', JStr (ustr ''ok'')), (ustr ''chatbot'', JObj (info cb))]
   \<and> (\<not> is_ready cb \<longrightarrow> info cb = [(ustr ''status'', JStr (ustr ''no_document''))])
   \<and> (vectorstore cb = Some vs \<longrightarrow>
        (\<exists>fragment_count model_name.
           info cb =
             [(ustr ''status'', JStr (ustr ''ready'')),
              (ustr ''fragment_count'', fragment_count),
              (ustr ''embedding_model'', JStr model_name)]
           \<and> (\<forall>d n. docstore vs = Some d \<and> dict_len d = Some (Inr n) \<longrightarrow>
                 fragment_count = JInt (int n))
           \<and> (docstore vs = None
               \<or> (\<exists>d. docstore vs = Some d
                     \<and> (dict_len d = None \<or> (\<exists>e. dict_len d = Some (Inl e)))) \<longrightarrow>
               fragment_count = JNull)
           \<and> (EMBEDDING_MODEL cfg = ustr ''all-MiniLM-L6-v2'' \<longrightarrow>
                 model_name = EMBEDDING_MODEL cfg)))"
  by (auto simp: route_status_def info_def is_ready_def split: option.splits sum.splits)

text \<open>
  The report of a chatbot without an index names no embedding model, which the claim
  as stated promises.
\<close>

theorem status_not_ready_no_model:
  "map_of (info fresh_chatbot) (ustr ''embedding_model'') = None
   \<and> route_status fresh_chatbot =
       [(ustr ''status'', JStr (ustr ''ok'')),
        (ustr ''chatbot'', JObj [(ustr ''status'', JStr (ustr ''no_document''))])]"
  by (simp add: route_status_def info_def fresh_chatbot_def ustr_def)

text \<open>The report without an index, with an index whose dictionary has two entries, and with one whose size cannot be taken, under the default configuration.\<close>

theorem route_status_report_witness:
  "\<not> is_ready fresh_chatbot
   \<and> info fresh_chatbot = [(ustr ''status'', JStr (ustr ''no_document''))]
   \<and> EMBEDDING_MODEL default_config = ustr ''all-MiniLM-L6-v2''
   \<and> vectorstore sample_chatbot = Some sample_index
   \<and> info sample_chatbot =
       [(ustr ''status'', JStr (ustr ''ready'')),
        (ustr ''fragment_count'', JInt 2),
        (ustr ''embedding_model'', JStr (EMBEDDING_MODEL default_config))]
   \<and> vectorstore failing_chatbot = Some failing_index
   \<and> info failing_chatbot =
       [(ustr ''status'', JStr (ustr ''ready'')),
        (ustr ''fragment_count'', JNull),
        (ustr ''embedding_model'', JStr (EMBEDDING_MODEL default_config))]"
proof -
  have a: "\<not> is_ready fresh_chatbot"
    by (simp add: is_ready_def fresh_chatbot_def)
  have m: "EMBEDDING_MODEL default_config = ustr ''all-MiniLM-L6-v2''"
    by (simp add: default_config_def)
  have b: "vectorstore sample_chatbot = Some sample_index"
    by (simp add: sample_chatbot_def)
  have b': "docstore sample_index = Some \<lparr>dict_len = Some (Inr 2)\<rparr>
      \<and> dict_len \<lparr>dict_len = Some (Inr 2)\<rparr> = Some (Inr 2)"
    by (simp add: sample_index_def)
  have c: "vectorstore failing_chatbot = Some failing_index"
    by (simp add: failing_chatbot_def)
  have c': "\<exists>d. docstore failing_index = Some d
      \<and> (dict_len d = None \<or> (\<exists>e. dict_len d = Some (Inl e)))"
    by (simp add: failing_index_def)
  from a route_status_report [of fresh_chatbot]
  have 1: "info fresh_chatbot = [(ustr ''status'', JStr (ustr ''no_document''))]"
    by blast
  from b b' m route_status_report [of sample_chatbot sample_index default_config]
  have 2: "info sample_chatbot =
       [(ustr ''status'', JStr (ustr ''ready'')),
        (ustr ''fragment_count'', JInt 2),
        (ustr ''embedding_model'', JStr (EMBEDDING_MODEL default_config))]"
    by auto
  from c c' m route_status_report [of failing_chatbot failing_index default_config]
  have 3: "info failing_chatbot =
       [(ustr ''status'', JStr (ustr ''ready'')),
        (ustr ''fragment_count'', JNull),
        (ustr ''embedding_model'', JStr (EMBEDDING_MODEL default_config))]"
    by auto
  from a m b c 1 2 3 show ?thesis by simp
qed

text \<open>
  Under another setting the report does not follow the configuration.  Ingestion builds
  the embeddings for \<open>EMBEDDING_MODEL\<close>: with only the model
  \<^verbatim>\<open>paraphrase-MiniLM-L3-v2\<close> installed it fails under the default configuration and
  succeeds under the one that names that model.  The report of the chatbot rebuilt under
  that configuration still names \<^verbatim>\<open>all-MiniLM-L6-v2\<close>, the literal of \<open>info\<close>.
\<close>

lemma status_names_literal_model:
  "EMBEDDING_MODEL other_model_config = ustr ''paraphrase-MiniLM-L3-v2''
   \<and> ingest_file default_config other_model_env (ustr ''uploads/doc.txt'') False
       = Inl (OtherException (ustr ''model not installed''))
   \<and> rebuild_from_file other_model_config other_model_env fresh_chatbot
         (ustr ''uploads/doc.txt'') False
       = (Inr (), fresh_chatbot\<lparr>vectorstore := Some sample_index\<rparr>)
   \<and> map_of (info (fresh_chatbot\<lparr>vectorstore := Some sample_index\<rparr>)) (ustr ''embedding_model'')
       = Some (JStr (ustr ''all-MiniLM-L6-v2''))
   \<and> ustr ''all-MiniLM-L6-v2'' \<noteq> EMBEDDING_MODEL other_model_config"
proof -
  have 1: "EMBEDDING_MODEL other_model_config = ustr ''paraphrase-MiniLM-L3-v2''"
    by (simp add: other_model_config_def)
  have 2: "ingest_file default_config other_model_env (ustr ''uploads/doc.txt'') False
       = Inl (OtherException (ustr ''model not installed''))"
    by (simp add: ingest_file_def load_file_def bind_exn_def get_embeddings_def suffix_txt Let_def
        other_model_env_def sample_env_def default_config_def)
       (simp add: ustr_def)
  have 3: "rebuild_from_file other_model_config other_model_env fresh_chatbot
         (ustr ''uploads/doc.txt'') False
       = (Inr (), fresh_chatbot\<lparr>vectorstore := Some sample_index\<rparr>)"
    by (simp add: rebuild_from_file_def ingest_file_def load_file_def bind_exn_def
        get_embeddings_def suffix_txt Let_def other_model_env_def sample_env_def 1)
  have 4: "map_of (info (fresh_chatbot\<lparr>vectorstore := Some sample_index\<rparr>))
         (ustr ''embedding_model'')
       = Some (JStr (ustr ''all-MiniLM-L6-v2''))"
    by (simp add: info_def sample_index_def) (simp add: ustr_def)
  have 5: "ustr ''all-MiniLM-L6-v2'' \<noteq> EMBEDDING_MODEL other_model_config"
    unfolding 1 by (simp add: ustr_def)
  from 1 2 3 4 5 show ?thesis by blast
qed

section \<open>Blank questions\<close>



section \<open>A failing fallback search\<close>

text \<open>
  Claim C10.  With an index loaded, when the plain search raises after the scored
  search has raised or has left no result at or above the minimum score, \<open>ask\<close> raises
  the plain search's exception: it returns no answer, and the chatbot is unchanged.
\<close>

theorem ask_fallback_failure_propagates:
  "vectorstore cb = Some vs \<Longrightarrow> similarity_search vs question k = Inl e \<Longrightarrow>
   (case similarity_search_with_score vs question k of
      Inl e' \<Rightarrow> True
    | Inr pairs \<Rightarrow> \<forall>(doc, score) \<in> set pairs. score < RAG_MIN_SCORE cfg) \<Longrightarrow>
   ask cfg post cb question k = (Inl e, cb, [ScoredSearch question k, PlainSearch question k])"
proof -
  assume vs: "vectorstore cb = Some vs" and pl: "similarity_search vs question k = Inl e"
    and sc: "case similarity_search_with_score vs question k of
      Inl e' \<Rightarrow> True
    | Inr pairs \<Rightarrow> \<forall>(doc, score) \<in> set pairs. score < RAG_MIN_SCORE cfg"
  have "retrieve cfg vs question k = (Inl e, [ScoredSearch question k, PlainSearch question k])"
  proof (cases "similarity_search_with_score vs question k")
    case (Inl e')
    with pl show ?thesis by (simp add: retrieve_def)
  next
    case (Inr pairs)
    with sc kept_empty_iff [of cfg pairs] pl show ?thesis
      by (simp add: retrieve_def Let_def)
  qed
  with vs show ?thesis by (simp add: ask_def)
qed

text \<open>Both searches raise; or the scored search finds one result below the floor and the plain search raises.\<close>

theorem ask_fallback_failure_propagates_witness:
  "vectorstore failing_chatbot = Some failing_index
   \<and> similarity_search failing_index (ustr ''Q?'') 4
       = Inl (OtherException (ustr ''plain search failed''))
   \<and> ask default_config sample_api failing_chatbot (ustr ''Q?'') 4
       = (Inl (OtherException (ustr ''plain search failed'')), failing_chatbot,
          [ScoredSearch (ustr ''Q?'') 4, PlainSearch (ustr ''Q?'') 4])
   \<and> vectorstore filtered_failing_chatbot = Some filtered_failing_index
   \<and> similarity_search_with_score filtered_failing_index (ustr ''Q?'') 4
       = Inr [(sample_doc, 0.2)]
   \<and> ask default_config sample_api filtered_failing_chatbot (ustr ''Q?'') 4
       = (Inl (OtherException (ustr ''plain search failed'')), filtered_failing_chatbot,
          [ScoredSearch (ustr ''Q?'') 4, PlainSearch (ustr ''Q?'') 4])"
proof -
  have a: "vectorstore failing_chatbot = Some failing_index"
    by (simp add: failing_chatbot_def)
  have b: "similarity_search failing_index (ustr ''Q?'') 4
       = Inl (OtherException (ustr ''plain search failed''))"
    by (simp add: failing_index_def)
  have c: "case similarity_search_with_score failing_index (ustr ''Q?'') 4 of
      Inl e' \<Rightarrow> True
    | Inr pairs \<Rightarrow> \<forall>(doc, score) \<in> set pairs. score < RAG_MIN_SCORE default_config"
    by (simp add: failing_index_def)
  have a': "vectorstore filtered_failing_chatbot = Some filtered_failing_index"
    by (simp add: filtered_failing_chatbot_def)
  have b': "similarity_search filtered_failing_index (ustr ''Q?'') 4
       = Inl (OtherException (ustr ''plain search failed''))"
    by (simp add: filtered_failing_index_def)
  have s': "similarity_search_with_score filtered_failing_index (ustr ''Q?'') 4
       = Inr [(sample_doc, 0.2)]"
    by (simp add: filtered_failing_index_def)
  have c': "case similarity_search_with_score filtered_failing_index (ustr ''Q?'') 4 of
      Inl e' \<Rightarrow> True
    | Inr pairs \<Rightarrow> \<forall>(doc, score) \<in> set pairs. score < RAG_MIN_SCORE default_config"
    by (simp add: filtered_failing_index_def default_config_def)
  from a b a' s' ask_fallback_failure_propagates [OF a b c, of sample_api]
    ask_fallback_failure_propagates [OF a' b' c', of sample_api]
  show ?thesis by simp
qed

end
